theory Spec2Isabelle
  imports Complex_Main "HOL-Library.Multiset"
begin

section \<open>JavaScript numbers\<close>

text \<open>
  A JavaScript \<open>number\<close> is an IEEE double: a finite value, one of the two infinities, or
  NaN. Finite values are kept as exact reals. Only comparisons and the sign of a difference
  are used by the two components, and for doubles the sign of \<open>a - b\<close> is the sign of the
  exact difference (gradual underflow: the difference of two distinct doubles is never zero;
  overflow keeps the sign).
\<close>

datatype number = NaN | NegInfinity | Finite real | PosInfinity

text \<open>The global \<open>isNaN\<close>.\<close>

fun isNaN :: "number \<Rightarrow> bool" where
  "isNaN NaN = True"
| "isNaN _ = False"

text \<open>The operator \<open><=\<close> on numbers: false as soon as one side is NaN.\<close>

fun js_le :: "number \<Rightarrow> number \<Rightarrow> bool" where
  "js_le NaN _ = False"
| "js_le _ NaN = False"
| "js_le NegInfinity _ = True"
| "js_le _ PosInfinity = True"
| "js_le (Finite a) (Finite b) = (a \<le> b)"
| "js_le _ _ = False"

text \<open>The operator \<open>-\<close> on numbers.\<close>

fun js_sub :: "number \<Rightarrow> number \<Rightarrow> number" where
  "js_sub NaN _ = NaN"
| "js_sub _ NaN = NaN"
| "js_sub PosInfinity PosInfinity = NaN"
| "js_sub NegInfinity NegInfinity = NaN"
| "js_sub PosInfinity _ = PosInfinity"
| "js_sub NegInfinity _ = NegInfinity"
| "js_sub _ PosInfinity = NegInfinity"
| "js_sub _ NegInfinity = PosInfinity"
| "js_sub (Finite a) (Finite b) = Finite (a - b)"

section \<open>Array.prototype.sort\<close>

text \<open>
  The comparator's result goes through the abstract operation SortCompare, which turns NaN
  into \<open>+0\<close>. The sort is stable (ECMAScript 2019): an element is moved behind another one
  only when the comparator says it is greater. For a comparator that is a consistent
  ordering the stable result is unique, so the sort is written as a stable insertion from
  the right end of the array.
\<close>

definition SortCompare :: "('a \<Rightarrow> 'a \<Rightarrow> number) \<Rightarrow> 'a \<Rightarrow> 'a \<Rightarrow> number" where
  "SortCompare comparefn x y = (case comparefn x y of NaN \<Rightarrow> Finite 0 | v \<Rightarrow> v)"

fun is_positive :: "number \<Rightarrow> bool" where
  "is_positive PosInfinity = True"
| "is_positive (Finite v) = (0 < v)"
| "is_positive _ = False"

fun sort_place :: "('a \<Rightarrow> 'a \<Rightarrow> number) \<Rightarrow> 'a \<Rightarrow> 'a list \<Rightarrow> 'a list" where
  "sort_place comparefn x [] = [x]"
| "sort_place comparefn x (y # ys) =
     (if is_positive (SortCompare comparefn x y) then y # sort_place comparefn x ys
      else x # y # ys)"

definition array_sort :: "('a \<Rightarrow> 'a \<Rightarrow> number) \<Rightarrow> 'a list \<Rightarrow> 'a list" where
  "array_sort comparefn xs = foldr (sort_place comparefn) xs []"

text \<open>A comparator is consistent on a set when it decides a total preorder there.\<close>

definition consistent_on :: "'a set \<Rightarrow> ('a \<Rightarrow> 'a \<Rightarrow> number) \<Rightarrow> ('a \<Rightarrow> 'a \<Rightarrow> bool) \<Rightarrow> bool" where
  "consistent_on S c R \<longleftrightarrow>
     (\<forall>a\<in>S. \<forall>b\<in>S. is_positive (SortCompare c a b) = (\<not> R a b)) \<and>
     (\<forall>a\<in>S. \<forall>b\<in>S. R a b \<or> R b a) \<and>
     (\<forall>a\<in>S. \<forall>b\<in>S. \<forall>d\<in>S. R a b \<longrightarrow> R b d \<longrightarrow> R a d)"

section \<open>Effects shared by the two components\<close>

text \<open>
  Identifiers of rides, offers and drivers are integers. A handler returns the new view
  state together with the effects it causes, in the order of the source: HTTP requests
  issued through axios, toasts, invalidations of a query key, and calls of the
  \<open>onClose\<close> callback that the offers modal receives as a prop.
\<close>

datatype request =
    GetRides
  | PostOffer number int
  | PostRideValidation int string
  | GetOffers int
  | PutSelectOffer int int
  | DeleteRide int

datatype query_key = DriverRides | UserRides | Offers int

datatype alert_status = Success | Error

record toast_options =
  title :: string
  description :: "string option"
  toastStatus :: alert_status
  duration :: nat
  isClosable :: bool

datatype effect =
    Request request
  | Toast toast_options
  | InvalidateQueries query_key
  | CallOnClose

fun is_request :: "effect \<Rightarrow> bool" where
  "is_request (Request _) = True"
| "is_request _ = False"

fun is_error_toast :: "effect \<Rightarrow> bool" where
  "is_error_toast (Toast t) = (toastStatus t = Error)"
| "is_error_toast _ = False"

type_synonym 's handler = "'s \<Rightarrow> 's \<times> effect list"

text \<open>Running one handler after another, collecting the effects in order.\<close>

definition and_then :: "'s handler \<Rightarrow> 's handler \<Rightarrow> 's handler" where
  "and_then f g st = (let (st1, e1) = f st; (st2, e2) = g st1 in (st2, e1 @ e2))"

section \<open>DriverDashboard.tsx\<close>

subsection \<open>Strings: parseFloat and toUpperCase\<close>

text \<open>
  The two string builtins the dashboard calls. Strings are ASCII here. \<open>parseFloat\<close>
  skips leading white space and reads the longest prefix that is a decimal literal
  (sign, digits, fraction, exponent, or \<open>Infinity\<close>); without such a prefix the result
  is NaN. The value is kept exact instead of being rounded to the nearest double, so
  \<open>handleSendOffer\<close> below takes the parser as an argument and its properties hold for
  every parser, the rounding one included.
\<close>

definition is_digit :: "char \<Rightarrow> bool" where
  "is_digit c = (48 \<le> (of_char c :: nat) \<and> (of_char c :: nat) \<le> 57)"

definition is_white_space :: "char \<Rightarrow> bool" where
  "is_white_space c = ((of_char c :: nat) \<in> {9, 10, 11, 12, 13, 32})"

definition digits_value :: "string \<Rightarrow> nat" where
  "digits_value ds = foldl (\<lambda>acc c. 10 * acc + (of_char c - 48)) 0 ds"

definition exponent_part :: "string \<Rightarrow> int" where
  "exponent_part s =
     (case s of
        [] \<Rightarrow> 0
      | c # t \<Rightarrow>
          if c = CHR ''e'' \<or> c = CHR ''E'' then
            (case t of
               [] \<Rightarrow> 0
             | sg # u \<Rightarrow>
                 if sg = CHR ''-'' then - int (digits_value (takeWhile is_digit u))
                 else if sg = CHR ''+'' then int (digits_value (takeWhile is_digit u))
                 else int (digits_value (takeWhile is_digit t)))
          else 0)"

definition scale10 :: "real \<Rightarrow> int \<Rightarrow> real" where
  "scale10 m e = (if 0 \<le> e then m * 10 ^ nat e else m / 10 ^ nat (- e))"

definition parse_unsigned :: "string \<Rightarrow> number" where
  "parse_unsigned s =
     (if take 8 s = ''Infinity'' then PosInfinity
      else
        let ip = takeWhile is_digit s;
            r1 = dropWhile is_digit s;
            has_dot = (case r1 of [] \<Rightarrow> False | c # _ \<Rightarrow> c = CHR ''.'');
            fp = (if has_dot then takeWhile is_digit (tl r1) else []);
            r2 = (if has_dot then dropWhile is_digit (tl r1) else r1)
        in if ip = [] \<and> fp = [] then NaN
           else Finite (scale10 (real (digits_value (ip @ fp)) / 10 ^ length fp) (exponent_part r2)))"

fun js_negate :: "number \<Rightarrow> number" where
  "js_negate NaN = NaN"
| "js_negate NegInfinity = PosInfinity"
| "js_negate PosInfinity = NegInfinity"
| "js_negate (Finite v) = Finite (- v)"

definition parseFloat :: "string \<Rightarrow> number" where
  "parseFloat s =
     (case dropWhile is_white_space s of
        [] \<Rightarrow> NaN
      | c # t \<Rightarrow>
          if c = CHR ''-'' then js_negate (parse_unsigned t)
          else if c = CHR ''+'' then parse_unsigned t
          else parse_unsigned (c # t))"

text \<open>
  \<open>toUpperCase\<close> on ASCII strings: the letters \<open>a\<close> to \<open>z\<close> move to \<open>A\<close> to \<open>Z\<close>, every
  other character stays.
\<close>

definition is_lower :: "char \<Rightarrow> bool" where
  "is_lower c = (97 \<le> (of_char c :: nat) \<and> (of_char c :: nat) \<le> 122)"

definition is_upper :: "char \<Rightarrow> bool" where
  "is_upper c = (65 \<le> (of_char c :: nat) \<and> (of_char c :: nat) \<le> 90)"

definition toUpperCase_char :: "char \<Rightarrow> char" where
  "toUpperCase_char c = (if is_lower c then char_of ((of_char c :: nat) - 32) else c)"

definition toUpperCase :: "string \<Rightarrow> string" where
  "toUpperCase s = map toUpperCase_char s"

text \<open>
  Changing the letter case of a string: at every position the character either stays or,
  when it is a letter, is replaced by the same letter in the other case.
\<close>

definition swap_case :: "char \<Rightarrow> char" where
  "swap_case c =
     (if is_lower c then char_of ((of_char c :: nat) - 32)
      else if is_upper c then char_of ((of_char c :: nat) + 32)
      else c)"

definition differ_only_in_case :: "string \<Rightarrow> string \<Rightarrow> bool" where
  "differ_only_in_case s t = list_all2 (\<lambda>c d. d = c \<or> d = swap_case c) s t"

subsection \<open>The component\<close>

record RideUser =
  user_name :: string

record Ride =
  ride_ident :: int
  status :: string
  pickup_location :: string
  destination_location :: string
  user :: RideUser
  scheduled_time :: string

text \<open>
  The view state: the three \<open>useState\<close> cells, the \<open>isOpen\<close> flag of
  \<open>useDisclosure\<close> (\<open>onOpen\<close> sets it, \<open>onClose\<close> clears it) and the data of the
  query \<open>["driverRides"]\<close>.
\<close>

record DriverDashboardState =
  offerPrices :: "int \<rightharpoonup> string"
  selectedRideId :: "int option"
  pin :: string
  isOpen :: bool
  rides :: "Ride list option"

definition createOffer_onSuccess :: "DriverDashboardState handler" where
  "createOffer_onSuccess st =
     (st, [InvalidateQueries DriverRides,
           Toast \<lparr>title = ''Offer sent successfully'', description = None,
                  toastStatus = Success, duration = 3000, isClosable = True\<rparr>])"

definition createOffer_onError :: "DriverDashboardState handler" where
  "createOffer_onError st =
     (st, [Toast \<lparr>title = ''Failed to send offer'', description = Some ''Please try again'',
                  toastStatus = Error, duration = 3000, isClosable = True\<rparr>])"

definition validatePin_onSuccess :: "bool \<Rightarrow> DriverDashboardState handler" where
  "validatePin_onSuccess data_validation st =
     (if data_validation then
        (st\<lparr>isOpen := False\<rparr>,
         [Toast \<lparr>title = ''PIN validated successfully'', description = None,
                 toastStatus = Success, duration = 3000, isClosable = True\<rparr>,
          InvalidateQueries DriverRides])
      else
        (st, [Toast \<lparr>title = ''Invalid PIN'', description = None,
                     toastStatus = Error, duration = 3000, isClosable = True\<rparr>]))"

definition validatePin_onError :: "DriverDashboardState handler" where
  "validatePin_onError st =
     (st, [Toast \<lparr>title = ''Error validating PIN'', description = None,
                  toastStatus = Error, duration = 3000, isClosable = True\<rparr>])"

text \<open>
  \<open>offerPrices[rideId]\<close> is \<open>undefined\<close> for a ride nobody typed a price for, and
  \<open>parseFloat\<close> first converts its argument to a string.
\<close>

definition buffered_text :: "string option \<Rightarrow> string" where
  "buffered_text b = (case b of None \<Rightarrow> ''undefined'' | Some s \<Rightarrow> s)"

definition handleSendOffer :: "(string \<Rightarrow> number) \<Rightarrow> int \<Rightarrow> DriverDashboardState handler" where
  "handleSendOffer parse rideId st =
     (let price = parse (buffered_text (offerPrices st rideId)) in
      if isNaN price \<or> js_le price (Finite 0) then
        (st, [Toast \<lparr>title = ''Invalid price'', description = Some ''Please enter a valid price'',
                     toastStatus = Error, duration = 3000, isClosable = True\<rparr>])
      else
        (st\<lparr>offerPrices := (offerPrices st)(rideId \<mapsto> [])\<rparr>,
         [Request (PostOffer price rideId)]))"

definition handlePinValidation :: "int \<Rightarrow> DriverDashboardState handler" where
  "handlePinValidation rideId st =
     (st\<lparr>selectedRideId := Some rideId, pin := [], isOpen := True\<rparr>, [])"

text \<open>The test \<open>if (selectedRideId)\<close>: \<open>null\<close> and \<open>0\<close> are falsy.\<close>

definition truthy :: "int option \<Rightarrow> bool" where
  "truthy v = (case v of None \<Rightarrow> False | Some n \<Rightarrow> n \<noteq> 0)"

definition handlePinSubmit :: "DriverDashboardState handler" where
  "handlePinSubmit st =
     (if truthy (selectedRideId st)
      then (st, [Request (PostRideValidation (the (selectedRideId st)) (pin st))])
      else (st, []))"

datatype ride_action = PriceInput | ValidatePinButton | RideCompletedText | NoAction

definition rideAction :: "Ride \<Rightarrow> ride_action" where
  "rideAction ride =
     (if toUpperCase (status ride) = ''REQUESTED'' then PriceInput
      else if toUpperCase (status ride) = ''ACCEPTED'' then ValidatePinButton
      else if toUpperCase (status ride) = ''COMPLETED'' then RideCompletedText
      else NoAction)"

section \<open>OffersModal.tsx\<close>

record Driver =
  driver_id :: int
  name :: string
  rating :: number

record Vehicle =
  brand :: string
  model :: string
  year :: int
  color :: string

record Offer =
  offer_id :: int
  ride_id :: int
  driver :: Driver
  vehicle :: Vehicle
  price :: number
  selected :: bool

datatype sort_key = Price | Rating

text \<open>
  The view state of the modal: the two \<open>useState\<close> cells, the data of the query
  \<open>["offers", rideId]\<close> (\<open>None\<close> while the query has no data) and the props
  \<open>isOpen\<close> and \<open>rideId\<close>. The component never writes \<open>isOpen\<close> itself: it calls
  \<open>onClose\<close>.
\<close>

record OffersModalState =
  sortBy :: sort_key
  modalPin :: string
  offers :: "Offer list option"
  modalIsOpen :: bool
  rideId :: int



definition compareOffers :: "sort_key \<Rightarrow> Offer \<Rightarrow> Offer \<Rightarrow> number" where
  "compareOffers key a b =
     (if key = Price then js_sub (price a) (price b)
      else js_sub (rating (driver b)) (rating (driver a)))"

text \<open>
  \<open>const sortedOffers = offers?.sort(...)\<close>, evaluated at every render. Without query
  data there is nothing to sort. \<open>sort\<close> works in place and \<open>offers\<close> is the array held
  by the query cache: the render leaves the cache sorted, and the next render sorts what
  this one left. The result is the new state together with the list that is rendered.
\<close>

definition sortedOffers :: "OffersModalState \<Rightarrow> OffersModalState \<times> Offer list option" where
  "sortedOffers st =
     (let sorted = map_option (array_sort (compareOffers (sortBy st))) (offers st)
      in (st\<lparr>offers := sorted\<rparr>, sorted))"


text \<open>
  The offers come out of a JSON response, and JSON has no notation for NaN: every price and
  rating of a fetched list is a finite number or an infinity.
\<close>

definition numeric_offers :: "Offer list \<Rightarrow> bool" where
  "numeric_offers xs = list_all (\<lambda>offer. \<not> isNaN (price offer) \<and> \<not> isNaN (rating (driver offer))) xs"

definition acceptOffer_onSuccess :: "string \<Rightarrow> OffersModalState handler" where
  "acceptOffer_onSuccess data_pin st =
     (st, [InvalidateQueries (Offers (rideId st)),
           InvalidateQueries UserRides,
           Toast \<lparr>title = ''Offer accepted'',
                  description = Some (''Your PIN is '' @ data_pin @ ''. Please remember it for your ride.''),
                  toastStatus = Success, duration = 5000, isClosable = True\<rparr>,
           CallOnClose])"

definition acceptOffer_onError :: "OffersModalState handler" where
  "acceptOffer_onError st =
     (st, [Toast \<lparr>title = ''Error accepting offer'', description = None,
                  toastStatus = Error, duration = 3000, isClosable = True\<rparr>])"

definition cancelRide_onSuccess :: "OffersModalState handler" where
  "cancelRide_onSuccess st =
     (st, [InvalidateQueries UserRides,
           Toast \<lparr>title = ''Ride cancelled successfully'', description = None,
                  toastStatus = Success, duration = 3000, isClosable = True\<rparr>,
           CallOnClose])"

definition cancelRide_onError :: "OffersModalState handler" where
  "cancelRide_onError st =
     (st, [Toast \<lparr>title = ''Error cancelling ride'', description = None,
                  toastStatus = Error, duration = 3000, isClosable = True\<rparr>])"

definition handleAccept :: "int \<Rightarrow> OffersModalState handler" where
  "handleAccept offerId st = (st, [Request (PutSelectOffer (rideId st) offerId)])"

definition declineUpdater :: "int \<Rightarrow> Offer list option \<Rightarrow> Offer list" where
  "declineUpdater offerId oldData =
     (case oldData of Some old \<Rightarrow> filter (\<lambda>offer. offer_id offer \<noteq> offerId) old | None \<Rightarrow> [])"

definition handleDecline :: "int \<Rightarrow> OffersModalState handler" where
  "handleDecline offerId st = (st\<lparr>offers := Some (declineUpdater offerId (offers st))\<rparr>, [])"

definition handleCancelRide :: "OffersModalState handler" where
  "handleCancelRide st = (st, [Request (DeleteRide (rideId st))])"

text \<open>
  One poll of the offers query: the request goes out and the query data becomes the list
  the server answers with.
\<close>

definition refetchOffers :: "Offer list \<Rightarrow> OffersModalState handler" where
  "refetchOffers response_data st =
     (st\<lparr>offers := Some response_data\<rparr>, [Request (GetOffers (rideId st))])"

subsection \<open>Sample data\<close>

text \<open>
  An offer with the three fields that the examples of the sort fix, the remaining fields
  taken from a base offer; and one complete offer to start from.
\<close>

definition offer_with :: "Offer \<Rightarrow> int \<Rightarrow> real \<Rightarrow> real \<Rightarrow> Offer" where
  "offer_with base i p r =
     base\<lparr>offer_id := i, price := Finite p, driver := (driver base)\<lparr>rating := Finite r\<rparr>\<rparr>"

definition offer0 :: Offer where
  "offer0 = \<lparr>offer_id = 0, ride_id = 7,
             driver = \<lparr>driver_id = 1, name = ''Ana'', rating = Finite 5\<rparr>,
             vehicle = \<lparr>brand = ''Kia'', model = ''Rio'', year = 2020, color = ''red''\<rparr>,
             price = Finite 1, selected = False\<rparr>"

text \<open>A dashboard with three typed prices, an offers modal with two offers, and a ride.\<close>

definition dashboard0 :: DriverDashboardState where
  "dashboard0 = \<lparr>offerPrices = [1 \<mapsto> ''10'', 2 \<mapsto> ''-3'', 3 \<mapsto> ''abc''],
                  selectedRideId = None, pin = ''4321'', isOpen = True, rides = None\<rparr>"

definition modal0 :: OffersModalState where
  "modal0 = \<lparr>sortBy = Price, modalPin = [],
              offers = Some [offer_with offer0 1 10 4.5, offer_with offer0 2 8 4.9],
              modalIsOpen = True, rideId = 7\<rparr>"

definition ride0 :: Ride where
  "ride0 = \<lparr>ride_ident = 1, status = ''requested'', pickup_location = ''A'',
             destination_location = ''B'', user = \<lparr>user_name = ''Eva''\<rparr>,
             scheduled_time = ''2024-01-01T10:00:00Z''\<rparr>"

section \<open>Properties\<close>

subsection \<open>Numbers\<close>

lemma is_positive_js_sub:
  "a \<noteq> NaN \<Longrightarrow> b \<noteq> NaN \<Longrightarrow>
   is_positive (case js_sub a b of NaN \<Rightarrow> Finite 0 | v \<Rightarrow> v) = (\<not> js_le a b)"
  by (cases a; cases b) auto

lemma js_le_total: "a \<noteq> NaN \<Longrightarrow> b \<noteq> NaN \<Longrightarrow> js_le a b \<or> js_le b a"
  by (cases a; cases b) auto

lemma js_le_trans: "js_le a b \<Longrightarrow> js_le b c \<Longrightarrow> js_le a c"
  by (cases a; cases b; cases c) auto

lemma js_le_refl: "a \<noteq> NaN \<Longrightarrow> js_le a a"
  by (cases a) auto

subsection \<open>The sort\<close>

lemma set_sort_place: "set (sort_place c x xs) = insert x (set xs)"
  by (induction xs) auto


lemma array_sort_Cons: "array_sort c (x # xs) = sort_place c x (array_sort c xs)"
  by (simp add: array_sort_def)

lemma array_sort_Nil: "array_sort c [] = []"
  by (simp add: array_sort_def)


lemma set_array_sort: "set (array_sort c xs) = set xs"
  by (induction xs) (simp_all add: array_sort_Nil array_sort_Cons set_sort_place)

lemma sorted_sort_place:
  assumes "consistent_on S c R" "x \<in> S" "set xs \<subseteq> S" "sorted_wrt R xs"
  shows "sorted_wrt R (sort_place c x xs)"
  using assms(3,4)
proof (induction xs)
  case Nil
  then show ?case by simp
next
  case (Cons y ys)
  have yS: "y \<in> S" and ysS: "set ys \<subseteq> S" using Cons.prems by auto
  show ?case
  proof (cases "is_positive (SortCompare c x y)")
    case True
    then have "R y x" using assms(1,2) yS unfolding consistent_on_def by blast
    moreover have "sorted_wrt R (sort_place c x ys)" using Cons ysS by simp
    ultimately show ?thesis using True Cons.prems by (auto simp: set_sort_place)
  next
    case False
    then have xy: "R x y" using assms(1,2) yS unfolding consistent_on_def by blast
    have "R x z" if "z \<in> set ys" for z
    proof -
      have "R y z" using Cons.prems that by auto
      moreover have "z \<in> S" using that ysS by auto
      ultimately show ?thesis using xy assms(1,2) yS unfolding consistent_on_def by blast
    qed
    then show ?thesis using False xy Cons.prems by auto
  qed
qed

lemma sorted_array_sort:
  assumes "consistent_on S c R" "set xs \<subseteq> S"
  shows "sorted_wrt R (array_sort c xs)"
  using assms(2)
proof (induction xs)
  case Nil
  then show ?case by (simp add: array_sort_Nil)
next
  case (Cons x xs)
  then have "sorted_wrt R (array_sort c xs)" by simp
  moreover have "x \<in> S" "set (array_sort c xs) \<subseteq> S"
    using Cons.prems by (auto simp: set_array_sort)
  ultimately show ?case
    using sorted_sort_place[OF assms(1)] by (simp add: array_sort_Cons)
qed



lemma sort_place_front:
  "(\<And>z. z \<in> set zs \<Longrightarrow> \<not> is_positive (SortCompare c x z)) \<Longrightarrow> sort_place c x zs = x # zs"
  by (cases zs) auto

lemma sort_place_filter:
  assumes "consistent_on S c R" "x \<in> S" "set xs \<subseteq> S" "sorted_wrt R xs"
  shows "filter P (sort_place c x xs) = (if P x then sort_place c x (filter P xs) else filter P xs)"
  using assms(3,4)
proof (induction xs)
  case Nil
  then show ?case by simp
next
  case (Cons y ys)
  have yS: "y \<in> S" and ysS: "set ys \<subseteq> S" using Cons.prems by auto
  show ?case
  proof (cases "is_positive (SortCompare c x y)")
    case True
    then show ?thesis using Cons ysS by auto
  next
    case False
    then have xy: "R x y" using assms(1,2) yS unfolding consistent_on_def by blast
    have "\<not> is_positive (SortCompare c x z)" if "z \<in> set (filter P (y # ys))" for z
    proof -
      have zin: "z \<in> set (y # ys)" using that by (auto split: if_splits)
      have zS: "z \<in> S" using zin Cons.prems by auto
      have "z = y \<or> R y z" using zin Cons.prems by auto
      then have "R x z" using xy zS yS assms(1,2) unfolding consistent_on_def by blast
      then show ?thesis using zS assms(1,2) unfolding consistent_on_def by blast
    qed
    then have "sort_place c x (filter P (y # ys)) = x # filter P (y # ys)"
      by (rule sort_place_front)
    then show ?thesis using False by simp
  qed
qed

lemma array_sort_filter:
  assumes "consistent_on S c R" "set xs \<subseteq> S"
  shows "array_sort c (filter P xs) = filter P (array_sort c xs)"
  using assms(2)
proof (induction xs)
  case Nil
  then show ?case by (simp add: array_sort_Nil)
next
  case (Cons x xs)
  have ih: "array_sort c (filter P xs) = filter P (array_sort c xs)" using Cons by simp
  have "filter P (sort_place c x (array_sort c xs)) =
      (if P x then sort_place c x (filter P (array_sort c xs)) else filter P (array_sort c xs))"
    using sort_place_filter[OF assms(1), of x "array_sort c xs" P] Cons.prems
      sorted_array_sort[OF assms(1), of xs]
    by (simp add: set_array_sort)
  then show ?case using ih by (simp add: array_sort_Cons)
qed

subsection \<open>The two comparators of the offers modal\<close>

lemma isNaN_iff: "isNaN v \<longleftrightarrow> v = NaN"
  by (cases v) auto

lemma consistent_price:
  "consistent_on {offer::Offer. price offer \<noteq> NaN} (compareOffers Price) (\<lambda>a b. js_le (price a) (price b))"
  unfolding consistent_on_def
proof (intro conjI ballI impI)
  fix a b :: Offer assume "a \<in> {offer::Offer. price offer \<noteq> NaN}" "b \<in> {offer::Offer. price offer \<noteq> NaN}"
  then show "is_positive (SortCompare (compareOffers Price) a b) = (\<not> js_le (price a) (price b))"
    by (simp add: SortCompare_def compareOffers_def is_positive_js_sub)
next
  fix a b :: Offer assume "a \<in> {offer::Offer. price offer \<noteq> NaN}" "b \<in> {offer::Offer. price offer \<noteq> NaN}"
  then show "js_le (price a) (price b) \<or> js_le (price b) (price a)"
    by (simp add: js_le_total)
next
  fix a b d :: Offer assume "js_le (price a) (price b)" "js_le (price b) (price d)"
  then show "js_le (price a) (price d)" by (rule js_le_trans)
qed

lemma consistent_rating:
  "consistent_on {offer::Offer. rating (driver offer) \<noteq> NaN} (compareOffers Rating)
     (\<lambda>a b. js_le (rating (driver b)) (rating (driver a)))"
  unfolding consistent_on_def
proof (intro conjI ballI impI)
  fix a b :: Offer assume "a \<in> {offer::Offer. rating (driver offer) \<noteq> NaN}" "b \<in> {offer::Offer. rating (driver offer) \<noteq> NaN}"
  then show "is_positive (SortCompare (compareOffers Rating) a b) = (\<not> js_le (rating (driver b)) (rating (driver a)))"
    by (simp add: SortCompare_def compareOffers_def is_positive_js_sub)
next
  fix a b :: Offer assume "a \<in> {offer::Offer. rating (driver offer) \<noteq> NaN}" "b \<in> {offer::Offer. rating (driver offer) \<noteq> NaN}"
  then show "js_le (rating (driver b)) (rating (driver a)) \<or> js_le (rating (driver a)) (rating (driver b))"
    by (simp add: js_le_total)
next
  fix a b d :: Offer assume "js_le (rating (driver b)) (rating (driver a))" "js_le (rating (driver d)) (rating (driver b))"
  then show "js_le (rating (driver d)) (rating (driver a))" by (rule js_le_trans[rotated])
qed

lemma numeric_offers_iff:
  "numeric_offers xs \<longleftrightarrow> (\<forall>offer\<in>set xs. price offer \<noteq> NaN \<and> rating (driver offer) \<noteq> NaN)"
  by (simp add: numeric_offers_def list_all_iff isNaN_iff)






lemma sortedOffers_result:
  "snd (sortedOffers s) = map_option (array_sort (compareOffers (sortBy s))) (offers s)"
  "fst (sortedOffers s) = s\<lparr>offers := map_option (array_sort (compareOffers (sortBy s))) (offers s)\<rparr>"
  by (simp_all add: sortedOffers_def Let_def)
















subsection \<open>Sending an offer\<close>

lemma parse_samples:
  "parseFloat ''10'' = Finite 10" "parseFloat ''-3'' = Finite (- 3)" "parseFloat ''abc'' = NaN"
  "parseFloat ''undefined'' = NaN"
  by code_simp+

text \<open>
  C2. Whatever the ride and whatever its price buffer holds (nothing at all included): when
  the parsed price is NaN or not greater than zero, \<open>handleSendOffer\<close> issues no request,
  leaves the view state as it is and shows exactly one toast, an error toast.
\<close>

theorem handleSendOffer_rejects_locally:
  assumes "isNaN (parse (buffered_text (offerPrices st r)))
           \<or> js_le (parse (buffered_text (offerPrices st r))) (Finite 0)"
  shows "fst (handleSendOffer parse r st) = st
       \<and> filter is_request (snd (handleSendOffer parse r st)) = []
       \<and> length (snd (handleSendOffer parse r st)) = 1
       \<and> list_all is_error_toast (snd (handleSendOffer parse r st))"
  using assms by (auto simp: handleSendOffer_def Let_def)

theorem handleSendOffer_rejects_locally_witness:
  "js_le (parseFloat (buffered_text (offerPrices dashboard0 2))) (Finite 0)
   \<and> isNaN (parseFloat (buffered_text (offerPrices dashboard0 3)))
   \<and> isNaN (parseFloat (buffered_text (offerPrices dashboard0 4)))
   \<and> filter is_request (snd (handleSendOffer parseFloat 2 dashboard0)) = []
   \<and> filter is_request (snd (handleSendOffer parseFloat 3 dashboard0)) = []
   \<and> filter is_request (snd (handleSendOffer parseFloat 4 dashboard0)) = []"
  using handleSendOffer_rejects_locally[of parseFloat dashboard0 2]
    handleSendOffer_rejects_locally[of parseFloat dashboard0 3]
    handleSendOffer_rejects_locally[of parseFloat dashboard0 4]
  by (simp add: dashboard0_def buffered_text_def parse_samples)

text \<open>
  C7. When the parsed price is valid the offer request goes out; after its success that
  ride's buffer holds the empty string, the buffer of every other ride is what it was,
  and the success handler invalidates the driver's ride list.
\<close>

theorem createOffer_success_clears_buffer:
  assumes "\<not> isNaN (parse (buffered_text (offerPrices st r)))"
    and "\<not> js_le (parse (buffered_text (offerPrices st r))) (Finite 0)"
  shows "snd (handleSendOffer parse r st) = [Request (PostOffer (parse (buffered_text (offerPrices st r))) r)]
       \<and> offerPrices (fst (and_then (handleSendOffer parse r) createOffer_onSuccess st)) r = Some []
       \<and> (\<forall>r'. r' \<noteq> r \<longrightarrow>
             offerPrices (fst (and_then (handleSendOffer parse r) createOffer_onSuccess st)) r'
             = offerPrices st r')
       \<and> InvalidateQueries DriverRides \<in> set (snd (createOffer_onSuccess (fst (handleSendOffer parse r st))))"
  using assms by (simp add: handleSendOffer_def Let_def and_then_def createOffer_onSuccess_def)

theorem createOffer_success_clears_buffer_witness:
  "\<not> isNaN (parseFloat (buffered_text (offerPrices dashboard0 1)))
   \<and> \<not> js_le (parseFloat (buffered_text (offerPrices dashboard0 1))) (Finite 0)
   \<and> snd (handleSendOffer parseFloat 1 dashboard0) = [Request (PostOffer (Finite 10) 1)]
   \<and> offerPrices (fst (and_then (handleSendOffer parseFloat 1) createOffer_onSuccess dashboard0)) 1 = Some []
   \<and> offerPrices (fst (and_then (handleSendOffer parseFloat 1) createOffer_onSuccess dashboard0)) 2 = Some ''-3''"
  using createOffer_success_clears_buffer[of parseFloat dashboard0 1]
  by (simp add: dashboard0_def buffered_text_def parse_samples)

subsection \<open>Failed requests\<close>

text \<open>
  C3, as stated, fails for offer creation: \<open>handleSendOffer\<close> empties the ride's buffer
  as soon as the request is issued, so after a failure the buffer no longer holds the typed
  price.
\<close>

theorem failed_offer_keeps_state_counterexample:
  "snd (handleSendOffer parseFloat 1 dashboard0) = [Request (PostOffer (Finite 10) 1)]
   \<and> offerPrices dashboard0 1 = Some ''10''
   \<and> offerPrices (fst (and_then (handleSendOffer parseFloat 1) createOffer_onError dashboard0)) 1 = Some []
   \<and> fst (and_then (handleSendOffer parseFloat 1) createOffer_onError dashboard0) \<noteq> dashboard0"
proof -
  have p: "parseFloat (buffered_text (offerPrices dashboard0 1)) = Finite 10"
    by (simp add: dashboard0_def buffered_text_def parse_samples)
  have a: "snd (handleSendOffer parseFloat 1 dashboard0) = [Request (PostOffer (Finite 10) 1)]"
    by (simp add: handleSendOffer_def p)
  have b: "offerPrices dashboard0 1 = Some ''10''"
    by (simp add: dashboard0_def)
  have c: "offerPrices (fst (and_then (handleSendOffer parseFloat 1) createOffer_onError dashboard0)) 1 = Some []"
    by (simp add: and_then_def handleSendOffer_def p createOffer_onError_def)
  from b c have "fst (and_then (handleSendOffer parseFloat 1) createOffer_onError dashboard0) \<noteq> dashboard0"
    by auto
  with a b c show ?thesis by simp
qed

text \<open>
  C3, amended. A failed PIN validation, offer acceptance or ride cancellation leaves the
  view state exactly as it was before the request was issued. The failure handler of offer
  creation changes no view state either, but the state after a failed offer creation is
  the state before the request with that ride's buffer emptied. Each failure handler shows
  one toast, an error toast, and nothing else.
\<close>

theorem failed_mutation_view_state:
  "fst (and_then handlePinSubmit validatePin_onError st) = st
   \<and> fst (and_then (handleAccept i) acceptOffer_onError m) = m
   \<and> fst (and_then handleCancelRide cancelRide_onError m) = m
   \<and> fst (createOffer_onError st) = st
   \<and> (\<not> isNaN (parse (buffered_text (offerPrices st r)))
        \<and> \<not> js_le (parse (buffered_text (offerPrices st r))) (Finite 0) \<longrightarrow>
      fst (and_then (handleSendOffer parse r) createOffer_onError st)
        = st\<lparr>offerPrices := (offerPrices st)(r \<mapsto> [])\<rparr>)
   \<and> map is_error_toast (snd (validatePin_onError st)) = [True]
   \<and> map is_error_toast (snd (acceptOffer_onError m)) = [True]
   \<and> map is_error_toast (snd (cancelRide_onError m)) = [True]
   \<and> map is_error_toast (snd (createOffer_onError st)) = [True]"
  by (simp add: and_then_def handlePinSubmit_def validatePin_onError_def handleAccept_def
      acceptOffer_onError_def handleCancelRide_def cancelRide_onError_def createOffer_onError_def
      handleSendOffer_def Let_def)

theorem failed_mutation_view_state_witness:
  "\<not> isNaN (parseFloat (buffered_text (offerPrices dashboard0 1)))
   \<and> \<not> js_le (parseFloat (buffered_text (offerPrices dashboard0 1))) (Finite 0)
   \<and> fst (and_then (handleSendOffer parseFloat 1) createOffer_onError dashboard0)
       = dashboard0\<lparr>offerPrices := (offerPrices dashboard0)(1 \<mapsto> [])\<rparr>
   \<and> fst (and_then handlePinSubmit validatePin_onError (dashboard0\<lparr>selectedRideId := Some 1\<rparr>))
       = dashboard0\<lparr>selectedRideId := Some 1\<rparr>
   \<and> fst (and_then (handleAccept 2) acceptOffer_onError modal0) = modal0
   \<and> fst (and_then handleCancelRide cancelRide_onError modal0) = modal0"
  using failed_mutation_view_state[of "dashboard0\<lparr>selectedRideId := Some 1\<rparr>" 2 modal0 parseFloat 1]
    failed_mutation_view_state[of dashboard0 2 modal0 parseFloat 1]
  by (simp add: dashboard0_def buffered_text_def parse_samples)

subsection \<open>Validating a PIN\<close>

text \<open>
  C4. On a response whose validation flag is false the view state is unchanged (the modal
  stays as it is), one error toast is shown and the ride list is not invalidated; on a
  response whose flag is true the modal is closed and the ride-list query is invalidated.
\<close>

theorem validatePin_onSuccess_by_flag:
  "fst (validatePin_onSuccess False st) = st
   \<and> length (snd (validatePin_onSuccess False st)) = 1
   \<and> list_all is_error_toast (snd (validatePin_onSuccess False st))
   \<and> InvalidateQueries DriverRides \<notin> set (snd (validatePin_onSuccess False st))
   \<and> fst (validatePin_onSuccess True st) = st\<lparr>isOpen := False\<rparr>
   \<and> InvalidateQueries DriverRides \<in> set (snd (validatePin_onSuccess True st))
   \<and> filter is_error_toast (snd (validatePin_onSuccess True st)) = []"
  by (simp add: validatePin_onSuccess_def)

text \<open>
  C9. With no ride selected for PIN entry, Submit issues no request and changes no state,
  whatever PIN has been typed.
\<close>

theorem handlePinSubmit_without_ride:
  assumes "selectedRideId st = None"
  shows "handlePinSubmit st = (st, [])"
  using assms by (simp add: handlePinSubmit_def truthy_def)

theorem handlePinSubmit_without_ride_witness:
  "selectedRideId dashboard0 = None \<and> handlePinSubmit dashboard0 = (dashboard0, [])"
  using handlePinSubmit_without_ride[of dashboard0] by (simp add: dashboard0_def)

subsection \<open>The action rendered for a ride\<close>

lemma char_of_shifted:
  fixes n :: nat
  assumes "n < 256"
  shows "(of_char (char_of n) :: nat) = n"
  using assms by (simp only: of_char_of mod_less)

lemma toUpperCase_char_swap_case: "toUpperCase_char (swap_case c) = toUpperCase_char c"
proof -
  define n where "n = (of_char c :: nat)"
  consider (lower) "97 \<le> n \<and> n \<le> 122" | (upper) "65 \<le> n \<and> n \<le> 90"
    | (other) "\<not> (97 \<le> n \<and> n \<le> 122)" "\<not> (65 \<le> n \<and> n \<le> 90)"
    by blast
  then show ?thesis
  proof cases
    case lower
    then have "n - 32 < 256" by arith
    then have v: "(of_char (char_of (n - 32)) :: nat) = n - 32" by (rule char_of_shifted)
    have "\<not> (97 \<le> n - 32 \<and> n - 32 \<le> 122)" using lower by arith
    then have "\<not> is_lower (char_of (n - 32))" unfolding is_lower_def v .
    moreover have "is_lower c" using lower unfolding is_lower_def n_def .
    ultimately show ?thesis
      unfolding swap_case_def toUpperCase_char_def n_def by simp
  next
    case upper
    then have "n + 32 < 256" by arith
    then have v: "(of_char (char_of (n + 32)) :: nat) = n + 32" by (rule char_of_shifted)
    have "97 \<le> n + 32 \<and> n + 32 \<le> 122" using upper by arith
    then have l: "is_lower (char_of (n + 32))" unfolding is_lower_def v .
    have u: "is_upper c" using upper unfolding is_upper_def n_def .
    have "\<not> (97 \<le> n \<and> n \<le> 122)" using upper by arith
    then have nl: "\<not> is_lower c" unfolding is_lower_def n_def .
    have "toUpperCase_char (char_of (n + 32)) = char_of (n + 32 - 32)"
      unfolding toUpperCase_char_def using l v by simp
    also have "\<dots> = c" unfolding n_def by simp
    finally have "toUpperCase_char (char_of (n + 32)) = c" .
    moreover have "swap_case c = char_of (n + 32)"
      unfolding swap_case_def n_def using u nl by simp
    moreover have "toUpperCase_char c = c"
      unfolding toUpperCase_char_def using nl by simp
    ultimately show ?thesis by simp
  next
    case other
    then have "\<not> is_lower c" "\<not> is_upper c"
      unfolding is_lower_def is_upper_def n_def by blast+
    then show ?thesis by (simp add: swap_case_def)
  qed
qed

lemma toUpperCase_case_variants:
  "differ_only_in_case s t \<Longrightarrow> toUpperCase s = toUpperCase t"
  unfolding differ_only_in_case_def toUpperCase_def
  by (induction rule: list_all2_induct) (auto simp: toUpperCase_char_swap_case)

text \<open>
  C8. Two rides whose status strings differ only in letter case get the same action.
\<close>

theorem rideAction_case_invariant:
  assumes "differ_only_in_case (status r1) (status r2)"
  shows "rideAction r1 = rideAction r2"
  using toUpperCase_case_variants[OF assms] by (simp add: rideAction_def)

theorem rideAction_case_invariant_witness:
  "differ_only_in_case (status ride0) (status (ride0\<lparr>status := ''ReQUESTed''\<rparr>))
   \<and> rideAction ride0 = rideAction (ride0\<lparr>status := ''ReQUESTed''\<rparr>)
   \<and> rideAction ride0 = PriceInput"
proof -
  have h: "differ_only_in_case (status ride0) (status (ride0\<lparr>status := ''ReQUESTed''\<rparr>))"
    unfolding ride0_def by code_simp
  have "rideAction ride0 = PriceInput"
    unfolding ride0_def by code_simp
  with h rideAction_case_invariant[OF h] show ?thesis by simp
qed

subsection \<open>Cancelling a ride\<close>

text \<open>
  C6. Whatever the offers query holds (no data, an empty list, any list): cancelling issues
  the delete request for the ride, and once it has succeeded the handler invalidates the
  rider's ride list, shows the success toast and calls \<open>onClose\<close>; the effects do not
  depend on the offer list.
\<close>

theorem cancelRide_success_closes:
  "snd (and_then handleCancelRide cancelRide_onSuccess (st\<lparr>offers := data\<rparr>))
     = [Request (DeleteRide (rideId st)),
        InvalidateQueries UserRides,
        Toast \<lparr>title = ''Ride cancelled successfully'', description = None,
               toastStatus = Success, duration = 3000, isClosable = True\<rparr>,
        CallOnClose]
   \<and> CallOnClose \<in> set (snd (cancelRide_onSuccess (st\<lparr>offers := data\<rparr>)))
   \<and> snd (cancelRide_onSuccess (st\<lparr>offers := data\<rparr>)) = snd (cancelRide_onSuccess st)"
  by (simp add: and_then_def handleCancelRide_def cancelRide_onSuccess_def)

subsection \<open>Declining\<close>

lemma filter_twice_same: "filter P (filter P xs) = filter P xs"
  by (induction xs) simp_all

lemma sortedOffers_filter:
  assumes "numeric_offers xs"
  shows "snd (sortedOffers (st\<lparr>offers := Some (filter P xs)\<rparr>))
         = map_option (filter P) (snd (sortedOffers (st\<lparr>offers := Some xs\<rparr>)))"
proof (cases "sortBy st")
  case Price
  have "array_sort (compareOffers Price) (filter P xs) = filter P (array_sort (compareOffers Price) xs)"
    by (rule array_sort_filter[OF consistent_price]) (use assms in \<open>auto simp: numeric_offers_iff\<close>)
  then show ?thesis using Price by (simp add: sortedOffers_result)
next
  case Rating
  have "array_sort (compareOffers Rating) (filter P xs) = filter P (array_sort (compareOffers Rating) xs)"
    by (rule array_sort_filter[OF consistent_rating]) (use assms in \<open>auto simp: numeric_offers_iff\<close>)
  then show ?thesis using Rating by (simp add: sortedOffers_result)
qed

text \<open>
  C5. Declining an offer causes no effect at all, so no request reaches the server; in
  the view state only the cached offer list changes, and it loses exactly the offers with
  that id, as does the rendered (sorted) list. The next poll stores the server's list again,
  so an offer the server still has is back.
\<close>

theorem handleDecline_local_only:
  "snd (handleDecline i st) = []
   \<and> offers (fst (handleDecline i (st\<lparr>offers := Some xs\<rparr>)))
       = Some (filter (\<lambda>offer. offer_id offer \<noteq> i) xs)
   \<and> fst (handleDecline i st) = st\<lparr>offers := offers (fst (handleDecline i st))\<rparr>
   \<and> (numeric_offers xs \<longrightarrow>
        snd (sortedOffers (fst (handleDecline i (st\<lparr>offers := Some xs\<rparr>))))
        = map_option (filter (\<lambda>offer. offer_id offer \<noteq> i)) (snd (sortedOffers (st\<lparr>offers := Some xs\<rparr>))))
   \<and> offers (fst (and_then (handleDecline i) (refetchOffers server_offers) st)) = Some server_offers"
  by (simp add: handleDecline_def declineUpdater_def and_then_def refetchOffers_def sortedOffers_filter)

theorem handleDecline_local_only_witness:
  "numeric_offers [offer_with offer0 1 10 4.5, offer_with offer0 2 8 4.9]
   \<and> map_option (map offer_id) (snd (sortedOffers (fst (handleDecline 2 modal0)))) = Some [1]
   \<and> snd (handleDecline 2 modal0) = []
   \<and> map_option (map offer_id)
        (offers (fst (and_then (handleDecline 2)
           (refetchOffers [offer_with offer0 1 10 4.5, offer_with offer0 2 8 4.9]) modal0))) = Some [1, 2]"
  using handleDecline_local_only[of 2 modal0 "[offer_with offer0 1 10 4.5, offer_with offer0 2 8 4.9]"
      "[offer_with offer0 1 10 4.5, offer_with offer0 2 8 4.9]"]
  by (simp add: modal0_def numeric_offers_def offer_with_def offer0_def sortedOffers_def Let_def
      array_sort_def SortCompare_def compareOffers_def handleDecline_def declineUpdater_def
      and_then_def refetchOffers_def)

text \<open>
  C10. Declining is idempotent on the cached offer list: declining the same id a second
  time changes nothing more; declining an id that no cached offer carries leaves the list
  as it is; when the query has no data yet, declining stores the empty list.
\<close>

theorem handleDecline_idempotent:
  "fst (handleDecline i (fst (handleDecline i st))) = fst (handleDecline i st)
   \<and> (offers st = Some xs \<and> i \<notin> offer_id ` set xs \<longrightarrow> offers (fst (handleDecline i st)) = Some xs)
   \<and> (offers st = None \<longrightarrow> offers (fst (handleDecline i st)) = Some [])"
proof (intro conjI impI)
  show "fst (handleDecline i (fst (handleDecline i st))) = fst (handleDecline i st)"
    by (simp add: handleDecline_def declineUpdater_def filter_twice_same split: option.splits)
next
  assume h: "offers st = Some xs \<and> i \<notin> offer_id ` set xs"
  then have "filter (\<lambda>offer. offer_id offer \<noteq> i) xs = xs"
    by (auto simp: filter_id_conv)
  with h show "offers (fst (handleDecline i st)) = Some xs"
    by (simp add: handleDecline_def declineUpdater_def)
next
  assume "offers st = None"
  then show "offers (fst (handleDecline i st)) = Some []"
    by (simp add: handleDecline_def declineUpdater_def)
qed

theorem handleDecline_idempotent_witness:
  "offers \<lparr>sortBy = Price, modalPin = [], offers = Some [offer_with offer0 1 10 4.5],
            modalIsOpen = True, rideId = 7\<rparr> = Some [offer_with offer0 1 10 4.5]
   \<and> 2 \<notin> offer_id ` set [offer_with offer0 1 10 4.5]
   \<and> offers (fst (handleDecline 2
         \<lparr>sortBy = Price, modalPin = [], offers = Some [offer_with offer0 1 10 4.5],
          modalIsOpen = True, rideId = 7\<rparr>)) = Some [offer_with offer0 1 10 4.5]
   \<and> offers \<lparr>sortBy = Price, modalPin = [], offers = None, modalIsOpen = True, rideId = 7\<rparr> = None
   \<and> offers (fst (handleDecline 2
         \<lparr>sortBy = Price, modalPin = [], offers = None, modalIsOpen = True, rideId = 7\<rparr>)) = Some []"
  using handleDecline_idempotent
      [of 2 "\<lparr>sortBy = Price, modalPin = [], offers = Some [offer_with offer0 1 10 4.5],
              modalIsOpen = True, rideId = 7\<rparr>" "[offer_with offer0 1 10 4.5]"]
    handleDecline_idempotent
      [of 2 "\<lparr>sortBy = Price, modalPin = [], offers = None, modalIsOpen = True, rideId = 7\<rparr>" "[]"]
  by (simp add: offer_with_def)

end
